theory Spec2Isabelle
  imports Main "HOL-Library.Sublist" "HOL-Library.Char_ord"
begin

section \<open>JavaScript values\<close>

text \<open>
  The values that travel through the session code are JSON data: what \<open>JSON.parse\<close>
  returns, what Firestore hands back for a document field, what is written into the
  session object.  Numbers are restricted to integers: the only number the code writes
  is \<open>loginTime = Date.now()\<close>, and the only thing it observes of a number it reads is
  whether it is zero.  A value that may also be \<open>undefined\<close> is a \<open>json option\<close>, with
  \<open>None\<close> for \<open>undefined\<close>.  Strings are lists of code units below 256.
\<close>

datatype json =
    JNull
  | JBool bool
  | JNum int
  | JStr string
  | JArr "json list"
  | JObj "(string \<times> json) list"

text \<open>ToBoolean: \<open>null\<close>, \<open>false\<close>, \<open>0\<close> and \<open>""\<close> are falsy, every array and object is truthy.\<close>

fun truthy :: "json \<Rightarrow> bool" where
  "truthy JNull = False"
| "truthy (JBool b) = b"
| "truthy (JNum n) = (n \<noteq> 0)"
| "truthy (JStr s) = (s \<noteq> [])"
| "truthy (JArr xs) = True"
| "truthy (JObj ps) = True"

definition truthy_val :: "json option \<Rightarrow> bool" where
  "truthy_val v = (case v of None \<Rightarrow> False | Some j \<Rightarrow> truthy j)"

text \<open>
  Reading a data property \<open>v.k\<close> of a value that is neither \<open>null\<close> nor \<open>undefined\<close>:
  an object yields its own property or \<open>undefined\<close>; booleans, numbers, strings and
  arrays have no data property of the names used here (\<open>isAdmin\<close>, \<open>permissions\<close>, ...).
\<close>

fun get_prop :: "json \<Rightarrow> string \<Rightarrow> json option" where
  "get_prop (JObj ps) k = map_of ps k"
| "get_prop v k = None"

section \<open>Browser storage\<close>

datatype exn = SecurityError | QuotaExceededError | SyntaxError | TypeError | FirestoreError string

text \<open>
  A string held by a storage tier, classified by what \<open>JSON.parse\<close> makes of it:
  \<open>Json_text v\<close> is a JSON text denoting \<open>v\<close> (never the empty string), \<open>Plain s\<close> is the
  string \<open>s\<close> taken verbatim, which \<open>JSON.parse\<close> rejects with a SyntaxError.  Only the
  value under the session key is ever parsed.
\<close>

datatype stored_string = Json_text json | Plain string

fun text_truthy :: "stored_string \<Rightarrow> bool" where
  "text_truthy (Json_text v) = True"
| "text_truthy (Plain s) = (s \<noteq> [])"

fun JSON_parse :: "stored_string \<Rightarrow> exn + json" where
  "JSON_parse (Json_text v) = Inr v"
| "JSON_parse (Plain s) = Inl SyntaxError"

text \<open>
  \<open>JSON.stringify\<close> of an object literal, given as its properties in order: a property
  whose value is \<open>undefined\<close> is left out.
\<close>

fun defined_props :: "(string \<times> json option) list \<Rightarrow> (string \<times> json) list" where
  "defined_props [] = []"
| "defined_props ((k, None) # ps) = defined_props ps"
| "defined_props ((k, Some v) # ps) = (k, v) # defined_props ps"

definition JSON_stringify :: "(string \<times> json option) list \<Rightarrow> stored_string" where
  "JSON_stringify ps = Json_text (JObj (defined_props ps))"

text \<open>
  One storage tier (\<open>localStorage\<close> or \<open>sessionStorage\<close>).  \<open>blocked\<close>: the browser denies
  access and every operation throws a SecurityError.  \<open>full\<close>: the quota is used up and
  \<open>setItem\<close> throws a QuotaExceededError, leaving the tier as it was.
\<close>

record tier =
  items :: "string \<rightharpoonup> stored_string"
  blocked :: bool
  full :: bool

definition getItem :: "tier \<Rightarrow> string \<Rightarrow> exn + stored_string option" where
  "getItem t k = (if blocked t then Inl SecurityError else Inr (items t k))"

definition setItem :: "tier \<Rightarrow> string \<Rightarrow> stored_string \<Rightarrow> exn + tier" where
  "setItem t k v =
     (if blocked t then Inl SecurityError
      else if full t then Inl QuotaExceededError
      else Inr (t\<lparr>items := (items t)(k \<mapsto> v)\<rparr>))"

definition removeItem :: "tier \<Rightarrow> string \<Rightarrow> exn + tier" where
  "removeItem t k =
     (if blocked t then Inl SecurityError
      else Inr (t\<lparr>items := (items t)(k := None)\<rparr>))"

section \<open>AuthManager: state and session store\<close>

text \<open>A Firebase user, as far as the manager reads it.\<close>

record fb_user =
  uid :: string
  email :: "json option"
  displayName :: "json option"

text \<open>
  The manager's fields and the part of the browser it acts on.  \<open>href\<close> collects the
  successive assignments to \<open>window.location.href\<close>, \<open>notifications\<close> the calls of
  \<open>showNotification\<close> as (message, type).  Console logging is not recorded.
\<close>

record state =
  currentUser :: "fb_user option"
  isAdmin :: bool
  localStorage :: tier
  sessionStorage :: tier
  pathname :: string
  href :: "string list"
  notifications :: "(string \<times> string) list"

definition session_key :: string where
  "session_key = ''ev_bunk_session''"

definition destination_key :: string where
  "destination_key = ''ev_bunk_intended_destination''"

definition showNotification :: "string \<Rightarrow> string \<Rightarrow> state \<Rightarrow> state" where
  "showNotification message type s = s\<lparr>notifications := notifications s @ [(message, type)]\<rparr>"

definition text_opt_truthy :: "stored_string option \<Rightarrow> bool" where
  "text_opt_truthy v = (case v of None \<Rightarrow> False | Some t \<Rightarrow> text_truthy t)"

text \<open>
  The \<open>try\<close> block of \<open>getStoredSession\<close>: \<open>localStorage.getItem(k) || sessionStorage.getItem(k)\<close>
  reads the per-tab tier only when the durable one gave a falsy result, and
  \<open>session ? JSON.parse(session) : null\<close> parses only a truthy string.
\<close>

definition read_session :: "state \<Rightarrow> exn + json" where
  "read_session s =
     (case getItem (localStorage s) session_key of
        Inl e \<Rightarrow> Inl e
      | Inr a \<Rightarrow>
          (case (if text_opt_truthy a then Inr a else getItem (sessionStorage s) session_key) of
             Inl e \<Rightarrow> Inl e
           | Inr session \<Rightarrow>
               (case session of
                  None \<Rightarrow> Inr JNull
                | Some t \<Rightarrow> if text_truthy t then JSON_parse t else Inr JNull)))"

text \<open>The \<open>catch\<close> clause logs the error and returns \<open>null\<close>.\<close>

definition getStoredSession :: "state \<Rightarrow> json" where
  "getStoredSession s = (case read_session s of Inl e \<Rightarrow> JNull | Inr v \<Rightarrow> v)"

definition isAuthenticated :: "state \<Rightarrow> bool" where
  "isAuthenticated s = (currentUser s \<noteq> None \<or> getStoredSession s \<noteq> JNull)"

text \<open>
  The storage states in which reading the session fails, in the words of the
  specification: the read of a tier throws, or the string found under the session key
  is not JSON.  The per-tab tier is only consulted when the durable one holds no
  (or an empty) string.
\<close>

definition durable_gives_nothing :: "state \<Rightarrow> bool" where
  "durable_gives_nothing s =
     (\<not> blocked (localStorage s) \<and> \<not> text_opt_truthy (items (localStorage s) session_key))"

definition storage_read_throws :: "state \<Rightarrow> bool" where
  "storage_read_throws s =
     (blocked (localStorage s) \<or> (durable_gives_nothing s \<and> blocked (sessionStorage s)))"

definition stored_text_unparseable :: "state \<Rightarrow> bool" where
  "stored_text_unparseable s =
     ((\<not> blocked (localStorage s) \<and>
         (\<exists>x. items (localStorage s) session_key = Some (Plain x) \<and> x \<noteq> []))
      \<or> (durable_gives_nothing s \<and> \<not> blocked (sessionStorage s) \<and>
         (\<exists>x. items (sessionStorage s) session_key = Some (Plain x) \<and> x \<noteq> [])))"

text \<open>\<open>String.prototype.includes\<close>: the argument occurs as a contiguous part.\<close>

definition includes_str :: "string \<Rightarrow> string \<Rightarrow> bool" where
  "includes_str s part = sublist part s"

section \<open>AuthManager: redirects and the authorization gate\<close>

text \<open>\<open>session && session.isAdmin\<close> on the stored session.\<close>

definition session_isAdmin :: "state \<Rightarrow> bool" where
  "session_isAdmin s =
     (let session = getStoredSession s
      in truthy session \<and> truthy_val (get_prop session ''isAdmin''))"

definition navigate :: "string \<Rightarrow> state \<Rightarrow> state" where
  "navigate page s = s\<lparr>href := href s @ [page]\<rparr>"

definition redirectAfterLogin :: "state \<Rightarrow> state" where
  "redirectAfterLogin s =
     (let currentPage = pathname s
      in if session_isAdmin s then
           (if includes_str currentPage ''admin-login'' \<or> includes_str currentPage ''user-login''
            then navigate ''admin-dashboard.html'' s
            else s)
         else
           (if includes_str currentPage ''admin-login''
            then navigate ''user-login.html'' (showNotification ''Please use user login'' ''warning'' s)
            else if includes_str currentPage ''admin-dashboard''
            then navigate ''user-login.html'' (showNotification ''Admin access required'' ''error'' s)
            else s))"

text \<open>
  \<open>redirectToLogin\<close> first stores the current path in the per-tab tier; a throwing
  \<open>setItem\<close> leaves the function before the navigation.  The path is stored verbatim.
\<close>

definition redirectToLogin :: "string \<Rightarrow> state \<Rightarrow> exn + state" where
  "redirectToLogin role s =
     (let loginPage = (if role = ''admin'' then ''admin-login.html'' else ''user-login.html'')
      in case setItem (sessionStorage s) destination_key (Plain (pathname s)) of
           Inl e \<Rightarrow> Inl e
         | Inr t \<Rightarrow> Inr (navigate loginPage (s\<lparr>sessionStorage := t\<rparr>)))"

text \<open>The result is the returned boolean with the state the call leaves behind.\<close>

definition validateAuth :: "string \<Rightarrow> state \<Rightarrow> exn + (bool \<times> state)" where
  "validateAuth requiredRole s =
     (let session = getStoredSession s
      in if \<not> isAuthenticated s \<or> \<not> truthy session then
           (case redirectToLogin requiredRole s of
              Inl e \<Rightarrow> Inl e
            | Inr s' \<Rightarrow> Inr (False, s'))
         else if requiredRole = ''admin'' \<and> \<not> truthy_val (get_prop session ''isAdmin'') then
           (case redirectToLogin ''admin'' (showNotification ''Admin access required'' ''error'' s) of
              Inl e \<Rightarrow> Inl e
            | Inr s' \<Rightarrow> Inr (False, s'))
         else Inr (True, s))"

section \<open>Role lookup (firebase-config.js)\<close>

text \<open>
  What the page finds around it: whether \<open>window.firebase\<close> and \<open>window.FirebaseConfig\<close>
  are defined, what awaiting \<open>getDoc(doc(firestore, collection, id))\<close> gives (a
  rejection, a snapshot that does not exist, or the fields of the document), and the
  clock.  A login handler runs without another handler interleaving at its \<open>await\<close>.
\<close>

record env =
  firebase :: bool
  FirebaseConfig :: bool
  getDoc :: "string \<Rightarrow> string \<Rightarrow> exn + (string \<rightharpoonup> json) option"
  now :: int

record admin_check =
  is_admin :: bool
  role :: "json option"
  permissions :: "json option"
  error :: "exn option"

text \<open>
  The whole body of \<open>checkAdminRole\<close> is a \<open>try\<close> block: destructuring an undefined
  \<open>window.firebase\<close> and a rejected \<open>getDoc\<close> both end in the \<open>catch\<close> clause.
\<close>

definition checkAdminRole :: "env \<Rightarrow> string \<Rightarrow> admin_check" where
  "checkAdminRole env userId =
     (if \<not> firebase env
      then \<lparr>is_admin = False, role = None, permissions = None, error = Some TypeError\<rparr>
      else case getDoc env ''adminUsers'' userId of
        Inl e \<Rightarrow> \<lparr>is_admin = False, role = None, permissions = None, error = Some e\<rparr>
      | Inr None \<Rightarrow> \<lparr>is_admin = False, role = None, permissions = None, error = None\<rparr>
      | Inr (Some adminData) \<Rightarrow>
          \<lparr>is_admin = True, role = adminData ''role'',
           permissions = adminData ''permissions'', error = None\<rparr>)"

section \<open>AuthManager: session write, clear and the login handler\<close>

text \<open>The object literal \<open>sessionData\<close>, property by property.\<close>

definition sessionData :: "env \<Rightarrow> fb_user \<Rightarrow> admin_check \<Rightarrow> (string \<times> json option) list" where
  "sessionData env user adminCheck =
     [(''userId'', Some (JStr (uid user))),
      (''email'', email user),
      (''displayName'', displayName user),
      (''isAdmin'', Some (JBool (is_admin adminCheck))),
      (''role'', role adminCheck),
      (''permissions'',
         Some (case permissions adminCheck of
                 None \<Rightarrow> JArr []
               | Some p \<Rightarrow> if truthy p then p else JArr [])),
      (''loginTime'', Some (JNum (now env)))]"

definition storeUserSession :: "env \<Rightarrow> fb_user \<Rightarrow> admin_check \<Rightarrow> state \<Rightarrow> exn + state" where
  "storeUserSession env user adminCheck s =
     (case setItem (localStorage s) session_key (JSON_stringify (sessionData env user adminCheck)) of
        Inl e \<Rightarrow> Inl e
      | Inr t \<Rightarrow> Inr (s\<lparr>localStorage := t\<rparr>))"

definition clearUserSession :: "state \<Rightarrow> exn + state" where
  "clearUserSession s =
     (case removeItem (localStorage s) session_key of
        Inl e \<Rightarrow> Inl e
      | Inr l \<Rightarrow>
          (case removeItem (sessionStorage s) session_key of
             Inl e \<Rightarrow> Inl e
           | Inr t \<Rightarrow> Inr (s\<lparr>localStorage := l, sessionStorage := t\<rparr>)))"

text \<open>
  \<open>handleUserLogin\<close>: the assignments made before a throw stay; the \<open>catch\<close> clause logs
  and notifies.  \<open>window.FirebaseConfig.authMethods.checkAdminRole\<close> throws a TypeError
  when \<open>window.FirebaseConfig\<close> is undefined; \<open>checkAdminRole\<close> itself never rejects.
\<close>

definition login_try :: "env \<Rightarrow> fb_user \<Rightarrow> state \<Rightarrow> (exn \<times> state) + state" where
  "login_try env user s =
     (let s1 = s\<lparr>currentUser := Some user\<rparr>
      in if \<not> FirebaseConfig env then Inl (TypeError, s1)
         else
           (let adminCheck = checkAdminRole env (uid user);
                s2 = s1\<lparr>isAdmin := is_admin adminCheck\<rparr>
            in case storeUserSession env user adminCheck s2 of
                 Inl e \<Rightarrow> Inl (e, s2)
               | Inr s3 \<Rightarrow>
                   Inr (redirectAfterLogin
                          (showNotification ''Authentication successful!'' ''success'' s3))))"

definition handleUserLogin :: "env \<Rightarrow> fb_user \<Rightarrow> state \<Rightarrow> state" where
  "handleUserLogin env user s =
     (case login_try env user s of
        Inl (e, s') \<Rightarrow> showNotification ''Authentication failed'' ''error'' s'
      | Inr s' \<Rightarrow> s')"

section \<open>AuthManager: password strength\<close>

definition is_upper :: "char \<Rightarrow> bool" where
  "is_upper c = (CHR ''A'' \<le> c \<and> c \<le> CHR ''Z'')"

definition is_lower :: "char \<Rightarrow> bool" where
  "is_lower c = (CHR ''a'' \<le> c \<and> c \<le> CHR ''z'')"

definition is_digit :: "char \<Rightarrow> bool" where
  "is_digit c = (CHR ''0'' \<le> c \<and> c \<le> CHR ''9'')"

text \<open>
  The class \<^verbatim>\<open>[!@#$%^&*()_+\-=\[\]{};':"\\|,.<>\/?]\<close>; apostrophe, double quote and
  backslash are given by their codes.
\<close>

definition special_chars :: string where
  "special_chars =
     ''!@#$%^&*()_+-=[]{};'' @ [CHR 0x27] @ '':'' @ [CHR 0x22, CHR 0x5C] @ ''|,.<>/?''"

definition is_special :: "char \<Rightarrow> bool" where
  "is_special c = (c \<in> set special_chars)"

record requirements =
  minLength :: bool
  hasUppercase :: bool
  hasLowercase :: bool
  hasNumbers :: bool
  hasSpecialChar :: bool

text \<open>The object returned by \<open>getPasswordFeedback\<close>.\<close>

record password_feedback =
  level :: string
  message :: string
  feedback :: "string list"

text \<open>
  The object returned by \<open>validatePasswordStrength\<close>; its property \<open>feedback\<close>, which
  holds the object above, is the field \<open>feedback_object\<close>.
\<close>

record password_strength =
  requirements :: requirements
  strength :: nat
  isStrong :: bool
  feedback_object :: password_feedback

text \<open>\<open>if (!met) feedback.push(text)\<close>\<close>

definition push_unless :: "bool \<Rightarrow> string \<Rightarrow> string list \<Rightarrow> string list" where
  "push_unless met txt fb = (if met then fb else fb @ [txt])"

definition getPasswordFeedback :: "nat \<Rightarrow> requirements \<Rightarrow> password_feedback" where
  "getPasswordFeedback n r =
     (let fb = push_unless (hasSpecialChar r) ''One special character''
                (push_unless (hasNumbers r) ''One number''
                  (push_unless (hasLowercase r) ''One lowercase letter''
                    (push_unless (hasUppercase r) ''One uppercase letter''
                      (push_unless (minLength r) ''At least 8 characters'' []))))
      in if n < 2 then \<lparr>level = ''weak'', message = ''Password is too weak'', feedback = fb\<rparr>
         else if n < 4 then \<lparr>level = ''medium'', message = ''Password is okay'', feedback = fb\<rparr>
         else if n < 5 then \<lparr>level = ''strong'', message = ''Password is strong'', feedback = fb\<rparr>
         else \<lparr>level = ''very-strong'', message = ''Password is very strong'', feedback = fb\<rparr>)"

text \<open>\<open>Object.values(requirements)\<close>, in the order the properties were written.\<close>

definition object_values :: "requirements \<Rightarrow> bool list" where
  "object_values r = [minLength r, hasUppercase r, hasLowercase r, hasNumbers r, hasSpecialChar r]"

definition validatePasswordStrength :: "string \<Rightarrow> password_strength" where
  "validatePasswordStrength password =
     (let r = \<lparr>minLength = (8 \<le> length password),
                hasUppercase = list_ex is_upper password,
                hasLowercase = list_ex is_lower password,
                hasNumbers = list_ex is_digit password,
                hasSpecialChar = list_ex is_special password\<rparr>;
          n = length (filter (\<lambda>b. b) (object_values r))
      in \<lparr>requirements = r, strength = n, isStrong = (4 \<le> n),
          feedback_object = getPasswordFeedback n r\<rparr>)"

text \<open>
  The five requirements as the specification lists them, with the rule each one
  stands for and the message shown while it is unmet.
\<close>

datatype requirement = Length | Upper | Lower | Number | Special

definition rule_order :: "requirement list" where
  "rule_order = [Length, Upper, Lower, Number, Special]"

fun meets :: "string \<Rightarrow> requirement \<Rightarrow> bool" where
  "meets p Length = (8 \<le> length p)"
| "meets p Upper = (\<exists>c \<in> set p. CHR ''A'' \<le> c \<and> c \<le> CHR ''Z'')"
| "meets p Lower = (\<exists>c \<in> set p. CHR ''a'' \<le> c \<and> c \<le> CHR ''z'')"
| "meets p Number = (\<exists>c \<in> set p. CHR ''0'' \<le> c \<and> c \<le> CHR ''9'')"
| "meets p Special = (\<exists>c \<in> set p. c \<in> set special_chars)"

fun hint :: "requirement \<Rightarrow> string" where
  "hint Length = ''At least 8 characters''"
| "hint Upper = ''One uppercase letter''"
| "hint Lower = ''One lowercase letter''"
| "hint Number = ''One number''"
| "hint Special = ''One special character''"

definition rules_met :: "string \<Rightarrow> nat" where
  "rules_met p = length (filter (meets p) rule_order)"

section \<open>FormValidator (main.js)\<close>

text \<open>
  Regular expressions, matched against a whole string: the patterns of the validator
  are anchored at both ends (\<^verbatim>\<open>^...$\<close>, no flags).
\<close>

datatype regex =
    RNone
  | REps
  | RClass "char \<Rightarrow> bool"
  | RAlt regex regex
  | RSeq regex regex
  | RStar regex

fun nullable :: "regex \<Rightarrow> bool" where
  "nullable RNone = False"
| "nullable REps = True"
| "nullable (RClass P) = False"
| "nullable (RAlt r q) = (nullable r \<or> nullable q)"
| "nullable (RSeq r q) = (nullable r \<and> nullable q)"
| "nullable (RStar r) = True"

fun deriv :: "char \<Rightarrow> regex \<Rightarrow> regex" where
  "deriv c RNone = RNone"
| "deriv c REps = RNone"
| "deriv c (RClass P) = (if P c then REps else RNone)"
| "deriv c (RAlt r q) = RAlt (deriv c r) (deriv c q)"
| "deriv c (RSeq r q) =
     (if nullable r then RAlt (RSeq (deriv c r) q) (deriv c q) else RSeq (deriv c r) q)"
| "deriv c (RStar r) = RSeq (deriv c r) (RStar r)"

fun matches :: "regex \<Rightarrow> string \<Rightarrow> bool" where
  "matches r [] = nullable r"
| "matches r (c # cs) = matches (deriv c r) cs"

text \<open>\<open>r+\<close>, \<open>r?\<close> and \<open>r{n,}\<close>\<close>

definition rplus :: "regex \<Rightarrow> regex" where
  "rplus r = RSeq r (RStar r)"

definition ropt :: "regex \<Rightarrow> regex" where
  "ropt r = RAlt REps r"

fun at_least :: "nat \<Rightarrow> regex \<Rightarrow> regex" where
  "at_least 0 r = RStar r"
| "at_least (Suc n) r = RSeq r (at_least n r)"

text \<open>
  What a pattern denotes, independently of the matcher: the set of strings it accepts.
\<close>

inductive_set repeats :: "string set \<Rightarrow> string set" for A :: "string set" where
  none: "[] \<in> repeats A"
| more: "a \<in> A \<Longrightarrow> w \<in> repeats A \<Longrightarrow> a @ w \<in> repeats A"

definition joined :: "string set \<Rightarrow> string set \<Rightarrow> string set" where
  "joined A B = {a @ b | a b. a \<in> A \<and> b \<in> B}"

fun lang :: "regex \<Rightarrow> string set" where
  "lang RNone = {}"
| "lang REps = {[]}"
| "lang (RClass P) = {[c] | c. P c}"
| "lang (RAlt r q) = lang r \<union> lang q"
| "lang (RSeq r q) = joined (lang r) (lang q)"
| "lang (RStar r) = repeats (lang r)"

text \<open>\<^verbatim>\<open>\s\<close> on code units below 256: tab, LF, VT, FF, CR, space and the no-break space.\<close>

definition is_space :: "char \<Rightarrow> bool" where
  "is_space c = (c \<in> set [CHR 0x09, CHR 0x0A, CHR 0x0B, CHR 0x0C, CHR 0x0D, CHR 0x20, CHR 0xA0])"

text \<open>\<^verbatim>\<open>/^[^\s@]+@[^\s@]+\.[^\s@]+$/\<close>\<close>

definition email_word :: regex where
  "email_word = rplus (RClass (\<lambda>c. \<not> (is_space c \<or> c = CHR ''@'')))"

definition email_pattern :: regex where
  "email_pattern =
     RSeq email_word (RSeq (RClass (\<lambda>c. c = CHR ''@''))
       (RSeq email_word (RSeq (RClass (\<lambda>c. c = CHR ''.'')) email_word)))"

text \<open>\<^verbatim>\<open>/^\+?[\d\s\-\(\)]{10,}$/\<close>\<close>

definition phone_pattern :: regex where
  "phone_pattern =
     RSeq (ropt (RClass (\<lambda>c. c = CHR ''+'')))
          (at_least 10 (RClass (\<lambda>c. is_digit c \<or> is_space c \<or> c \<in> set ''-()'')))"

text \<open>
  A rule set of the validator.  A property the rule set does not have reads as
  \<open>undefined\<close>: \<open>required\<close> is then falsy, \<open>pattern\<close> and \<open>min_length\<close> are \<open>None\<close>.
\<close>

record rule =
  required :: bool
  pattern :: "regex option"
  min_length :: "nat option"
  rule_message :: string

definition rules :: "string \<Rightarrow> rule option" where
  "rules type =
     (if type = ''email'' then
        Some \<lparr>required = False, pattern = Some email_pattern, min_length = None,
              rule_message = ''Please enter a valid email address''\<rparr>
      else if type = ''phone'' then
        Some \<lparr>required = False, pattern = Some phone_pattern, min_length = None,
              rule_message = ''Please enter a valid phone number''\<rparr>
      else if type = ''password'' then
        Some \<lparr>required = False, pattern = None, min_length = Some 6,
              rule_message = ''Password must be at least 6 characters long''\<rparr>
      else None)"

text \<open>\<open>String.prototype.trim\<close>\<close>

definition trim :: "string \<Rightarrow> string" where
  "trim v = rev (dropWhile is_space (rev (dropWhile is_space v)))"

record validation =
  isValid :: bool
  error_text :: "string option"

text \<open>
  \<open>validate(field, value, type)\<close>.  The value is a string, or \<open>None\<close> for a missing one
  (\<open>null\<close> or \<open>undefined\<close>); each check after the first is guarded by \<open>value &&\<close>.
\<close>

definition validate :: "string \<Rightarrow> string option \<Rightarrow> string \<Rightarrow> validation" where
  "validate field value type =
     (case rules type of
        None \<Rightarrow> \<lparr>isValid = True, error_text = None\<rparr>
      | Some rule \<Rightarrow>
          if required rule \<and>
             (case value of None \<Rightarrow> True | Some v \<Rightarrow> v = [] \<or> trim v = [])
          then \<lparr>isValid = False, error_text = Some (field @ '' is required'')\<rparr>
          else if (case (value, pattern rule) of
                     (Some v, Some p) \<Rightarrow> v \<noteq> [] \<and> \<not> matches p v
                   | _ \<Rightarrow> False)
          then \<lparr>isValid = False, error_text = Some (rule_message rule)\<rparr>
          else if (case (value, min_length rule) of
                     (Some v, Some n) \<Rightarrow> v \<noteq> [] \<and> n \<noteq> 0 \<and> length v < n
                   | _ \<Rightarrow> False)
          then \<lparr>isValid = False, error_text = Some (rule_message rule)\<rparr>
          else \<lparr>isValid = True, error_text = None\<rparr>)"

section \<open>The specification's terms\<close>

text \<open>The page a login redirect leads to.\<close>

definition login_page :: "string \<Rightarrow> string" where
  "login_page r = (if r = ''admin'' then ''admin-login.html'' else ''user-login.html'')"

text \<open>
  The state after a login redirect: the current path recorded in the per-tab tier and
  the navigation to the login page appended.
\<close>

definition redirected :: "string \<Rightarrow> state \<Rightarrow> state" where
  "redirected r s =
     s\<lparr>sessionStorage :=
          (sessionStorage s)\<lparr>items := (items (sessionStorage s))(destination_key \<mapsto> Plain (pathname s))\<rparr>,
       href := href s @ [login_page r]\<rparr>"

text \<open>
  The redirect policy in the words of the specification: for an admin or non-admin
  session and a path, the notifications to emit and the pages to navigate to.
\<close>

definition redirect_policy :: "bool \<Rightarrow> string \<Rightarrow> (string \<times> string) list \<times> string list" where
  "redirect_policy admin path =
     (if admin then
        (if includes_str path ''admin-login'' \<or> includes_str path ''user-login''
         then ([], [''admin-dashboard.html''])
         else ([], []))
      else if includes_str path ''admin-login''
        then ([(''Please use user login'', ''warning'')], [''user-login.html''])
      else if includes_str path ''admin-dashboard''
        then ([(''Admin access required'', ''error'')], [''user-login.html''])
      else ([], []))"

section \<open>Example states\<close>

definition empty_tier :: tier where
  "empty_tier = \<lparr>items = Map.empty, blocked = False, full = False\<rparr>"

text \<open>The manager right after its constructor, on the page with the given path.\<close>

definition fresh :: "string \<Rightarrow> state" where
  "fresh path =
     \<lparr>currentUser = None, isAdmin = False, localStorage = empty_tier,
      sessionStorage = empty_tier, pathname = path, href = [], notifications = []\<rparr>"

definition holding :: "stored_string \<Rightarrow> tier" where
  "holding t = empty_tier\<lparr>items := [session_key \<mapsto> t]\<rparr>"

definition alice :: fb_user where
  "alice = \<lparr>uid = ''u1'', email = Some (JStr ''alice@example.com''), displayName = Some JNull\<rparr>"

definition admin_session :: json where
  "admin_session = JObj [(''userId'', JStr ''u1''), (''isAdmin'', JBool True)]"

definition user_session :: json where
  "user_session = JObj [(''userId'', JStr ''u1''), (''isAdmin'', JBool False)]"

definition memory_only :: state where
  "memory_only = (fresh ''/user-dashboard.html'')\<lparr>currentUser := Some alice\<rparr>"

definition broken_store :: state where
  "broken_store = (fresh ''/index.html'')\<lparr>localStorage := holding (Plain ''{oops'')\<rparr>"

definition on_page :: "string \<Rightarrow> json \<Rightarrow> state" where
  "on_page path session = (fresh path)\<lparr>localStorage := holding (Json_text session)\<rparr>"

text \<open>An environment in which Firestore holds no admin document at all.\<close>

definition plain_env :: env where
  "plain_env =
     \<lparr>firebase = True, FirebaseConfig = True, getDoc = (\<lambda>c i. Inr None), now = 1700000000000\<rparr>"

text \<open>One in which \<open>u1\<close> has an admin document that is marked inactive.\<close>

definition inactive_admin_doc :: "string \<rightharpoonup> json" where
  "inactive_admin_doc =
     [''role'' \<mapsto> JStr ''manager'', ''permissions'' \<mapsto> JArr [JStr ''stations''],
      ''isActive'' \<mapsto> JBool False]"

definition admin_env :: env where
  "admin_env =
     \<lparr>firebase = True, FirebaseConfig = True,
      getDoc = (\<lambda>c i. if c = ''adminUsers'' \<and> i = ''u1'' then Inr (Some inactive_admin_doc)
                       else Inr None),
      now = 1700000000000\<rparr>"

text \<open>One whose Firestore cannot be reached, and one without \<open>window.FirebaseConfig\<close>.\<close>

definition offline_env :: env where
  "offline_env = plain_env\<lparr>getDoc := (\<lambda>c i. Inl (FirestoreError ''unavailable''))\<rparr>"

definition bare_env :: env where
  "bare_env = plain_env\<lparr>FirebaseConfig := False\<rparr>"

definition denied_store :: state where
  "denied_store = (fresh ''/index.html'')\<lparr>localStorage := empty_tier\<lparr>blocked := True\<rparr>\<rparr>"

definition tab_only :: state where
  "tab_only = (fresh ''/index.html'')\<lparr>sessionStorage := holding (Json_text user_session)\<rparr>"

definition quota_hit :: state where
  "quota_hit = (fresh ''/user-login.html'')\<lparr>localStorage := empty_tier\<lparr>full := True\<rparr>\<rparr>"

text \<open>The state after \<open>u1\<close>, an admin, has signed in on a fresh login page.\<close>

definition signed_in :: state where
  "signed_in =
     (fresh ''/admin-login.html'')\<lparr>localStorage :=
        holding (JSON_stringify (sessionData admin_env alice (checkAdminRole admin_env ''u1'')))\<rparr>"

section \<open>Reading a broken session\<close>

lemma read_session_throws:
  assumes "storage_read_throws s"
  shows "read_session s = Inl SecurityError"
  using assms
  by (auto simp: storage_read_throws_def durable_gives_nothing_def read_session_def getItem_def)

lemma read_session_unparseable:
  assumes "stored_text_unparseable s"
  shows "read_session s = Inl SyntaxError"
  using assms
  by (auto simp: stored_text_unparseable_def durable_gives_nothing_def read_session_def
      getItem_def text_opt_truthy_def split: option.splits)

lemma parse_when_truthy_throws:
  "(case session of None \<Rightarrow> Inr JNull
    | Some t \<Rightarrow> if text_truthy t then JSON_parse t else Inr JNull) = Inl e
   \<longleftrightarrow> (\<exists>x. session = Some (Plain x) \<and> x \<noteq> []) \<and> e = SyntaxError"
proof (cases session)
  case None
  then show ?thesis by simp
next
  case (Some t)
  then show ?thesis by (cases t) auto
qed

text \<open>The two kinds of failure are the only ones: otherwise the \<open>try\<close> block returns.\<close>

lemma read_session_fails_only_so:
  assumes "read_session s = Inl e"
  shows "storage_read_throws s \<or> stored_text_unparseable s"
proof (cases "blocked (localStorage s)")
  case True
  then show ?thesis by (simp add: storage_read_throws_def)
next
  case False
  note local_ok = this
  show ?thesis
  proof (cases "text_opt_truthy (items (localStorage s) session_key)")
    case True
    with local_ok assms
    have "\<exists>x. items (localStorage s) session_key = Some (Plain x) \<and> x \<noteq> []"
      by (simp add: read_session_def getItem_def parse_when_truthy_throws)
    with local_ok show ?thesis
      by (simp add: stored_text_unparseable_def)
  next
    case False
    with local_ok have fallback: "durable_gives_nothing s"
      by (simp add: durable_gives_nothing_def)
    show ?thesis
    proof (cases "blocked (sessionStorage s)")
      case True
      with fallback show ?thesis by (simp add: storage_read_throws_def)
    next
      case tab_ok: False
      with local_ok False assms
      have "\<exists>x. items (sessionStorage s) session_key = Some (Plain x) \<and> x \<noteq> []"
        by (simp add: read_session_def getItem_def parse_when_truthy_throws)
      with fallback tab_ok show ?thesis
        by (simp add: stored_text_unparseable_def)
    qed
  qed
qed

text \<open>
  C9. Whenever reading the stored session fails (a storage read throws, or the string
  under the session key is not JSON), the \<open>try\<close> block does throw, \<open>getStoredSession\<close>
  returns \<open>null\<close> instead of passing the error on, and a caller with no in-memory user
  is not authenticated.
\<close>

theorem getStoredSession_failure_is_null:
  assumes "storage_read_throws s \<or> stored_text_unparseable s"
  shows "(\<exists>e. read_session s = Inl e) \<and> getStoredSession s = JNull
         \<and> (currentUser s = None \<longrightarrow> \<not> isAuthenticated s)"
proof -
  from assms obtain e where e: "read_session s = Inl e"
    using read_session_throws read_session_unparseable by blast
  then have "getStoredSession s = JNull"
    by (simp add: getStoredSession_def)
  with e show ?thesis
    by (simp add: isAuthenticated_def)
qed

theorem getStoredSession_failure_is_null_witness:
  "stored_text_unparseable broken_store
   \<and> getStoredSession broken_store = JNull
   \<and> \<not> isAuthenticated broken_store
   \<and> storage_read_throws denied_store
   \<and> getStoredSession denied_store = JNull
   \<and> \<not> isAuthenticated denied_store"
proof -
  have h: "stored_text_unparseable broken_store"
    by (simp add: stored_text_unparseable_def broken_store_def fresh_def holding_def empty_tier_def)
  have u: "currentUser broken_store = None"
    by (simp add: broken_store_def fresh_def)
  have h': "storage_read_throws denied_store"
    by (simp add: storage_read_throws_def denied_store_def fresh_def empty_tier_def)
  have u': "currentUser denied_store = None"
    by (simp add: denied_store_def fresh_def)
  from getStoredSession_failure_is_null [of broken_store]
    getStoredSession_failure_is_null [of denied_store] h u h' u'
  show ?thesis
    by simp
qed

section \<open>The authorization gate\<close>

lemma truthy_session_authenticated:
  "truthy (getStoredSession s) \<Longrightarrow> isAuthenticated s"
  by (auto simp: isAuthenticated_def)

lemma redirectToLogin_writable:
  assumes "\<not> blocked (sessionStorage s)" and "\<not> full (sessionStorage s)"
  shows "redirectToLogin r s = Inr (redirected r s)"
  using assms
  by (simp add: redirectToLogin_def setItem_def redirected_def login_page_def navigate_def)

lemma getStoredSession_fresh:
  "getStoredSession ((fresh path)\<lparr>currentUser := u\<rparr>) = JNull"
  by (simp add: getStoredSession_def read_session_def getItem_def fresh_def empty_tier_def
      text_opt_truthy_def)

lemma getStoredSession_on_page:
  "getStoredSession (on_page path v) = v"
  by (simp add: on_page_def getStoredSession_def read_session_def getItem_def fresh_def
      holding_def empty_tier_def text_opt_truthy_def)

text \<open>
  C1, as stated, fails: with the in-memory user set and no session record in either
  tier the caller is authenticated, the required role is not \<open>admin\<close>, and yet
  \<open>validateAuth\<close> redirects to the user login page and returns \<open>false\<close>.
\<close>

theorem validateAuth_memory_only_counterexample:
  "isAuthenticated memory_only
   \<and> validateAuth ''user'' memory_only = Inr (False, redirected ''user'' memory_only)
   \<and> href (redirected ''user'' memory_only) = [''user-login.html'']"
proof -
  have g: "getStoredSession memory_only = JNull"
    unfolding memory_only_def by (rule getStoredSession_fresh)
  have a: "isAuthenticated memory_only"
    by (simp add: isAuthenticated_def memory_only_def)
  have w: "\<not> blocked (sessionStorage memory_only)" "\<not> full (sessionStorage memory_only)"
    by (simp_all add: memory_only_def fresh_def empty_tier_def)
  have v: "validateAuth ''user'' memory_only = Inr (False, redirected ''user'' memory_only)"
    by (simp add: validateAuth_def g redirectToLogin_writable [OF w])
  have "href (redirected ''user'' memory_only) = [''user-login.html'']"
    by (simp add: redirected_def login_page_def memory_only_def fresh_def)
  with a v show ?thesis by simp
qed

text \<open>
  C1, amended. While the per-tab tier accepts the write of the intended destination:
  if no truthy stored session can be read (which includes every unauthenticated caller,
  and also a caller of whom only the in-memory user is set), \<open>validateAuth\<close> redirects to
  the login page of the required role and returns \<open>false\<close>; if the required role is
  \<open>admin\<close> and the session's \<open>isAdmin\<close> is falsy, it notifies "Admin access required",
  redirects to the admin login page and returns \<open>false\<close>; otherwise it returns \<open>true\<close>
  and changes nothing.
\<close>

theorem validateAuth_gate:
  "(\<not> blocked (sessionStorage s) \<and> \<not> full (sessionStorage s) \<longrightarrow>
      validateAuth requiredRole s =
        (if \<not> truthy (getStoredSession s) then
           Inr (False, redirected requiredRole s)
         else if requiredRole = ''admin''
                 \<and> \<not> truthy_val (get_prop (getStoredSession s) ''isAdmin'') then
           Inr (False, redirected ''admin'' (showNotification ''Admin access required'' ''error'' s))
         else Inr (True, s)))
   \<and> ((\<exists>s'. validateAuth requiredRole s = Inr (True, s'))
        \<longleftrightarrow> truthy (getStoredSession s)
            \<and> (requiredRole = ''admin'' \<longrightarrow> truthy_val (get_prop (getStoredSession s) ''isAdmin'')))
   \<and> (\<forall>s'. validateAuth requiredRole s = Inr (True, s') \<longrightarrow> s' = s)"
proof -
  have gate: "validateAuth requiredRole s =
        (if \<not> truthy (getStoredSession s) then
           Inr (False, redirected requiredRole s)
         else if requiredRole = ''admin''
                 \<and> \<not> truthy_val (get_prop (getStoredSession s) ''isAdmin'') then
           Inr (False, redirected ''admin'' (showNotification ''Admin access required'' ''error'' s))
         else Inr (True, s))"
    if ok: "\<not> blocked (sessionStorage s)" "\<not> full (sessionStorage s)"
  proof -
    have w: "\<not> blocked (sessionStorage (showNotification m t s))"
            "\<not> full (sessionStorage (showNotification m t s))" for m t
      using ok by (simp_all add: showNotification_def)
    show ?thesis
      using truthy_session_authenticated [of s]
      by (auto simp: validateAuth_def Let_def redirectToLogin_writable [OF ok]
          redirectToLogin_writable [OF w])
  qed
  have passes: "(\<exists>s'. validateAuth requiredRole s = Inr (True, s'))
        \<longleftrightarrow> truthy (getStoredSession s)
            \<and> (requiredRole = ''admin'' \<longrightarrow> truthy_val (get_prop (getStoredSession s) ''isAdmin''))"
    using truthy_session_authenticated [of s]
    by (auto simp: validateAuth_def Let_def split: sum.splits)
  have same: "s' = s" if "validateAuth requiredRole s = Inr (True, s')" for s'
    using that by (auto simp: validateAuth_def Let_def split: sum.splits if_splits)
  from gate passes same show ?thesis
    by blast
qed

theorem validateAuth_gate_witness:
  "\<not> blocked (sessionStorage (fresh ''/admin-dashboard.html''))
   \<and> \<not> full (sessionStorage (fresh ''/admin-dashboard.html''))
   \<and> validateAuth ''admin'' (fresh ''/admin-dashboard.html'')
       = Inr (False, redirected ''admin'' (fresh ''/admin-dashboard.html''))
   \<and> href (redirected ''admin'' (fresh ''/admin-dashboard.html'')) = [''admin-login.html'']
   \<and> validateAuth ''admin'' (on_page ''/admin-dashboard.html'' admin_session)
       = Inr (True, on_page ''/admin-dashboard.html'' admin_session)
   \<and> validateAuth ''admin'' (on_page ''/admin-dashboard.html'' user_session)
       = Inr (False, redirected ''admin''
            (showNotification ''Admin access required'' ''error''
               (on_page ''/admin-dashboard.html'' user_session)))"
proof -
  let ?s = "fresh ''/admin-dashboard.html''"
  have w: "\<not> blocked (sessionStorage ?s)" "\<not> full (sessionStorage ?s)"
    by (simp_all add: fresh_def empty_tier_def)
  have g: "getStoredSession ?s = JNull"
    using getStoredSession_fresh [where path = "''/admin-dashboard.html''" and u = None]
    by (simp add: fresh_def)
  have h: "href (redirected ''admin'' ?s) = [''admin-login.html'']"
    by (simp add: redirected_def login_page_def fresh_def)
  have w': "\<not> blocked (sessionStorage (on_page p v))" "\<not> full (sessionStorage (on_page p v))"
    for p v
    by (simp_all add: on_page_def fresh_def empty_tier_def)
  from validateAuth_gate [of ?s "''admin''"]
    validateAuth_gate [of "on_page ''/admin-dashboard.html'' admin_session" "''admin''"]
    validateAuth_gate [of "on_page ''/admin-dashboard.html'' user_session" "''admin''"]
    g w h w'
  show ?thesis
    by (simp add: getStoredSession_on_page admin_session_def user_session_def truthy_val_def)
qed

section \<open>The redirect policy\<close>

lemma session_isAdmin_boolean:
  assumes "getStoredSession s = JObj ps" and "map_of ps ''isAdmin'' = Some (JBool b)"
  shows "session_isAdmin s = b"
  using assms by (simp add: session_isAdmin_def truthy_val_def)

lemma session_isAdmin_no_session:
  assumes "getStoredSession s = JNull"
  shows "\<not> session_isAdmin s"
  using assms by (simp add: session_isAdmin_def)

text \<open>
  C2. \<open>redirectAfterLogin\<close> does exactly what the policy says: an admin session on one
  of the two login pages goes to the admin dashboard; otherwise a non-admin (or absent)
  session on the admin login page gets a warning and the user login page, on the admin
  dashboard an "Admin access required" error and the user login page; nothing else
  changes.  An admin session on any other page is left untouched.  "Admin" is the
  code's test \<open>session && session.isAdmin\<close>: for a session object whose \<open>isAdmin\<close> is a
  boolean it is that boolean, and it is false when there is no session.
\<close>

theorem redirectAfterLogin_policy:
  "redirectAfterLogin s =
     s\<lparr>notifications := notifications s @ fst (redirect_policy (session_isAdmin s) (pathname s)),
       href := href s @ snd (redirect_policy (session_isAdmin s) (pathname s))\<rparr>
   \<and> (session_isAdmin s \<and> \<not> includes_str (pathname s) ''admin-login''
        \<and> \<not> includes_str (pathname s) ''user-login'' \<longrightarrow> redirectAfterLogin s = s)
   \<and> (\<forall>ps b. getStoredSession s = JObj ps \<and> map_of ps ''isAdmin'' = Some (JBool b)
        \<longrightarrow> session_isAdmin s = b)
   \<and> (getStoredSession s = JNull \<longrightarrow> \<not> session_isAdmin s)"
proof -
  have policy: "redirectAfterLogin s =
     s\<lparr>notifications := notifications s @ fst (redirect_policy (session_isAdmin s) (pathname s)),
       href := href s @ snd (redirect_policy (session_isAdmin s) (pathname s))\<rparr>"
    by (simp add: redirectAfterLogin_def redirect_policy_def navigate_def showNotification_def)
  have untouched: "redirectAfterLogin s = s"
    if "session_isAdmin s" "\<not> includes_str (pathname s) ''admin-login''"
       "\<not> includes_str (pathname s) ''user-login''"
    using that by (simp add: redirectAfterLogin_def)
  from policy untouched session_isAdmin_boolean session_isAdmin_no_session
  show ?thesis by blast
qed

lemma includes_user_login: "includes_str ''/user-login.html'' ''user-login''"
  unfolding includes_str_def by code_simp

lemma includes_admin_login: "includes_str ''/admin-login.html'' ''admin-login''"
  unfolding includes_str_def by code_simp

lemma index_is_no_login_page:
  "\<not> includes_str ''/index.html'' ''admin-login''" "\<not> includes_str ''/index.html'' ''user-login''"
  unfolding includes_str_def by code_simp+

theorem redirectAfterLogin_policy_witness:
  "href (redirectAfterLogin (on_page ''/user-login.html'' admin_session)) = [''admin-dashboard.html'']
   \<and> notifications (redirectAfterLogin (on_page ''/user-login.html'' admin_session)) = []
   \<and> href (redirectAfterLogin (on_page ''/admin-login.html'' user_session)) = [''user-login.html'']
   \<and> notifications (redirectAfterLogin (on_page ''/admin-login.html'' user_session))
       = [(''Please use user login'', ''warning'')]
   \<and> redirectAfterLogin (on_page ''/index.html'' admin_session) = on_page ''/index.html'' admin_session"
proof -
  have a: "session_isAdmin (on_page path admin_session)" for path
    by (simp add: session_isAdmin_def getStoredSession_on_page admin_session_def truthy_val_def)
  have u: "\<not> session_isAdmin (on_page ''/admin-login.html'' user_session)"
    by (simp add: session_isAdmin_def getStoredSession_on_page user_session_def truthy_val_def)
  have p: "pathname (on_page path v) = path" "href (on_page path v) = []"
    "notifications (on_page path v) = []" for path v
    by (simp_all add: on_page_def fresh_def)
  from redirectAfterLogin_policy [of "on_page ''/user-login.html'' admin_session"]
    redirectAfterLogin_policy [of "on_page ''/admin-login.html'' user_session"]
    redirectAfterLogin_policy [of "on_page ''/index.html'' admin_session"]
  show ?thesis
    by (simp add: a u p redirect_policy_def includes_user_login includes_admin_login
        index_is_no_login_page)
qed

section \<open>The login handler\<close>

lemma storeUserSession_throws_iff:
  "(\<exists>e. storeUserSession env user ac s = Inl e)
   \<longleftrightarrow> blocked (localStorage s) \<or> full (localStorage s)"
  by (simp add: storeUserSession_def setItem_def)

lemma login_try_fails_iff:
  "(\<exists>e s'. login_try env user s = Inl (e, s'))
   \<longleftrightarrow> \<not> FirebaseConfig env \<or> blocked (localStorage s) \<or> full (localStorage s)"
  by (auto simp: login_try_def Let_def storeUserSession_def setItem_def)

text \<open>
  C3, amended.  The login handler fails exactly when \<open>window.FirebaseConfig\<close> is missing or
  the durable write throws.  It then emits the failure notification, navigates nowhere
  and leaves both storage tiers as they were; \<open>currentUser\<close> is already the new user, and
  \<open>isAdmin\<close> holds the result of the role lookup when that ran, its old value otherwise.
\<close>

theorem handleUserLogin_failure:
  assumes "\<not> FirebaseConfig env \<or> blocked (localStorage s) \<or> full (localStorage s)"
  shows "(\<exists>e s'. login_try env user s = Inl (e, s'))
    \<and> notifications (handleUserLogin env user s)
         = notifications s @ [(''Authentication failed'', ''error'')]
    \<and> href (handleUserLogin env user s) = href s
    \<and> localStorage (handleUserLogin env user s) = localStorage s
    \<and> sessionStorage (handleUserLogin env user s) = sessionStorage s
    \<and> currentUser (handleUserLogin env user s) = Some user
    \<and> isAdmin (handleUserLogin env user s)
         = (if FirebaseConfig env then is_admin (checkAdminRole env (uid user)) else isAdmin s)"
proof (cases "FirebaseConfig env")
  case False
  then have "login_try env user s = Inl (TypeError, s\<lparr>currentUser := Some user\<rparr>)"
    by (simp add: login_try_def)
  with False show ?thesis
    by (simp add: handleUserLogin_def showNotification_def)
next
  case True
  with assms have "blocked (localStorage s) \<or> full (localStorage s)"
    by simp
  then obtain e where
    "storeUserSession env user (checkAdminRole env (uid user))
       (s\<lparr>currentUser := Some user, isAdmin := is_admin (checkAdminRole env (uid user))\<rparr>) = Inl e"
    using storeUserSession_throws_iff
      [of env user "checkAdminRole env (uid user)"
          "s\<lparr>currentUser := Some user, isAdmin := is_admin (checkAdminRole env (uid user))\<rparr>"]
    by auto
  with True have "login_try env user s =
      Inl (e, s\<lparr>currentUser := Some user, isAdmin := is_admin (checkAdminRole env (uid user))\<rparr>)"
    by (simp add: login_try_def Let_def)
  with True show ?thesis
    by (simp add: handleUserLogin_def showNotification_def)
qed

text \<open>
  C3, as stated, fails: when the durable tier is full the handler fails and notifies,
  but the in-memory user, \<open>null\<close> before, is the new user afterwards.
\<close>

theorem handleUserLogin_quota_counterexample:
  "login_try plain_env alice quota_hit
     = Inl (QuotaExceededError, quota_hit\<lparr>currentUser := Some alice, isAdmin := False\<rparr>)
   \<and> notifications (handleUserLogin plain_env alice quota_hit)
       = [(''Authentication failed'', ''error'')]
   \<and> currentUser quota_hit = None
   \<and> currentUser (handleUserLogin plain_env alice quota_hit) = Some alice"
  by (simp add: login_try_def handleUserLogin_def Let_def storeUserSession_def setItem_def
      checkAdminRole_def plain_env_def quota_hit_def fresh_def empty_tier_def showNotification_def)

theorem handleUserLogin_failure_witness:
  "full (localStorage quota_hit)
   \<and> notifications (handleUserLogin plain_env alice quota_hit)
       = [(''Authentication failed'', ''error'')]
   \<and> href (handleUserLogin plain_env alice quota_hit) = []
   \<and> localStorage (handleUserLogin plain_env alice quota_hit) = localStorage quota_hit
   \<and> sessionStorage (handleUserLogin plain_env alice quota_hit) = sessionStorage quota_hit
   \<and> currentUser (handleUserLogin plain_env alice quota_hit) = Some alice
   \<and> isAdmin (handleUserLogin plain_env alice quota_hit) = False
   \<and> \<not> FirebaseConfig bare_env
   \<and> notifications (handleUserLogin bare_env alice (on_page ''/index.html'' admin_session))
       = [(''Authentication failed'', ''error'')]
   \<and> localStorage (handleUserLogin bare_env alice (on_page ''/index.html'' admin_session))
       = holding (Json_text admin_session)
   \<and> currentUser (handleUserLogin bare_env alice (on_page ''/index.html'' admin_session))
       = Some alice"
proof -
  have f: "full (localStorage quota_hit)"
    by (simp add: quota_hit_def empty_tier_def)
  have q: "notifications quota_hit = []" "href quota_hit = []"
    by (simp_all add: quota_hit_def fresh_def)
  have c: "FirebaseConfig plain_env" "\<not> is_admin (checkAdminRole plain_env (uid alice))"
    by (simp_all add: plain_env_def checkAdminRole_def)
  have b: "\<not> FirebaseConfig bare_env"
    by (simp add: bare_env_def plain_env_def)
  have o: "notifications (on_page p v) = []" "localStorage (on_page p v) = holding (Json_text v)"
    for p v
    by (simp_all add: on_page_def fresh_def)
  from handleUserLogin_failure [of plain_env quota_hit alice]
    handleUserLogin_failure [of bare_env "on_page ''/index.html'' admin_session" alice]
    f q c b o
  show ?thesis
    by simp
qed

text \<open>A failed role lookup is no failure of the handler.\<close>

lemma handleUserLogin_lookup_error_succeeds:
  assumes "FirebaseConfig env" and "firebase env"
    and "getDoc env ''adminUsers'' (uid user) = Inl e"
    and "\<not> blocked (localStorage s)" and "\<not> full (localStorage s)"
  shows "\<exists>s'. login_try env user s = Inr s'
           \<and> (''Authentication successful!'', ''success'') \<in> set (notifications s')
           \<and> (''Authentication failed'', ''error'') \<notin> set (notifications s') - set (notifications s)
           \<and> isAdmin s' = False
           \<and> items (localStorage s') session_key
               = Some (JSON_stringify (sessionData env user
                   \<lparr>is_admin = False, role = None, permissions = None, error = Some e\<rparr>))"
  using assms
  by (auto simp: login_try_def Let_def checkAdminRole_def storeUserSession_def setItem_def
      redirectAfterLogin_def showNotification_def navigate_def)

section \<open>The session store\<close>

lemma defined_props_absent:
  "k \<notin> fst ` set ps \<Longrightarrow> map_of (defined_props ps) k = None"
  by (induction ps rule: defined_props.induct) auto

lemma defined_props_read_back:
  "distinct (map fst ps) \<Longrightarrow> (k, x) \<in> set ps \<Longrightarrow> map_of (defined_props ps) k = x"
proof (induction ps rule: defined_props.induct)
  case 1
  then show ?case by simp
next
  case (2 k' ps)
  then show ?case
    by (auto simp: defined_props_absent)
next
  case (3 k' v ps)
  then show ?case
    by (auto simp: rev_image_eqI)
qed

lemma sessionData_keys:
  "map fst (sessionData env user ac) =
     [''userId'', ''email'', ''displayName'', ''isAdmin'', ''role'', ''permissions'', ''loginTime'']"
  by (simp add: sessionData_def)

lemma sessionData_distinct: "distinct (map fst (sessionData env user ac))"
  unfolding sessionData_keys by simp

lemma getStoredSession_durable:
  assumes "\<not> blocked (localStorage s)"
    and "items (localStorage s) session_key = Some t" and "text_truthy t"
  shows "getStoredSession s = (case t of Json_text v \<Rightarrow> v | Plain x \<Rightarrow> JNull)"
  using assms
  by (cases t)
    (simp_all add: getStoredSession_def read_session_def getItem_def text_opt_truthy_def)

lemma getStoredSession_fallback:
  assumes "durable_gives_nothing s" and "\<not> blocked (sessionStorage s)"
  shows "getStoredSession s =
     (case items (sessionStorage s) session_key of
        Some (Json_text v) \<Rightarrow> v
      | _ \<Rightarrow> JNull)"
  using assms
  by (simp add: getStoredSession_def read_session_def getItem_def durable_gives_nothing_def
      split: option.splits stored_string.splits)

lemma storeUserSession_durable_only:
  assumes "\<not> blocked (localStorage s)" and "\<not> full (localStorage s)"
  shows "storeUserSession env user ac s =
     Inr (s\<lparr>localStorage := (localStorage s)\<lparr>items :=
            (items (localStorage s))(session_key \<mapsto> JSON_stringify (sessionData env user ac))\<rparr>\<rparr>)"
  using assms by (simp add: storeUserSession_def setItem_def)

lemma clearUserSession_both:
  assumes "\<not> blocked (localStorage s)" and "\<not> blocked (sessionStorage s)"
  shows "clearUserSession s =
     Inr (s\<lparr>localStorage := (localStorage s)\<lparr>items := (items (localStorage s))(session_key := None)\<rparr>,
            sessionStorage := (sessionStorage s)\<lparr>items := (items (sessionStorage s))(session_key := None)\<rparr>\<rparr>)"
  using assms by (simp add: clearUserSession_def removeItem_def)

lemma round_trip:
  assumes "storeUserSession env user ac s = Inr s'" and "(k, x) \<in> set (sessionData env user ac)"
  shows "get_prop (getStoredSession s') k = x"
proof -
  from assms(1) have ok: "\<not> blocked (localStorage s)" "\<not> full (localStorage s)"
    by (auto simp: storeUserSession_def setItem_def split: if_splits)
  with assms(1) have s': "s' = s\<lparr>localStorage := (localStorage s)\<lparr>items :=
            (items (localStorage s))(session_key \<mapsto> JSON_stringify (sessionData env user ac))\<rparr>\<rparr>"
    by (simp add: storeUserSession_durable_only)
  have "getStoredSession s' = JObj (defined_props (sessionData env user ac))"
    using getStoredSession_durable [of s' "JSON_stringify (sessionData env user ac)"]
    by (simp add: s' ok JSON_stringify_def)
  with assms(2) show ?thesis
    by (simp add: defined_props_read_back [OF sessionData_distinct])
qed

lemma cleared_reads_null:
  assumes "clearUserSession s = Inr s'"
  shows "items (localStorage s') session_key = None \<and> items (sessionStorage s') session_key = None
         \<and> getStoredSession s' = JNull"
proof -
  from assms have ok: "\<not> blocked (localStorage s)" "\<not> blocked (sessionStorage s)"
    by (auto simp: clearUserSession_def removeItem_def split: if_splits)
  with assms have s': "s' = s\<lparr>localStorage := (localStorage s)\<lparr>items := (items (localStorage s))(session_key := None)\<rparr>,
            sessionStorage := (sessionStorage s)\<lparr>items := (items (sessionStorage s))(session_key := None)\<rparr>\<rparr>"
    by (simp add: clearUserSession_both)
  have "getStoredSession s' = JNull"
    by (simp add: s' ok getStoredSession_def read_session_def getItem_def text_opt_truthy_def)
  then show ?thesis by (simp add: s')
qed

text \<open>
  C4. The write goes to the durable tier only; the read takes the durable tier first
  and falls back to the per-tab tier when the durable one holds nothing; the clear
  removes the record from both tiers.  Hence every property written by \<open>storeUserSession\<close>
  is read back by \<open>getStoredSession\<close> with the value written (a property written as
  \<open>undefined\<close> reads back as \<open>undefined\<close>), and after \<open>clearUserSession\<close> neither tier holds
  a record and the read gives \<open>null\<close>.
\<close>

theorem session_store_tiers:
  "(\<not> blocked (localStorage s) \<and> \<not> full (localStorage s) \<longrightarrow>
      storeUserSession env user ac s =
        Inr (s\<lparr>localStorage := (localStorage s)\<lparr>items :=
               (items (localStorage s))(session_key \<mapsto> JSON_stringify (sessionData env user ac))\<rparr>\<rparr>))
   \<and> (\<forall>t. \<not> blocked (localStorage s) \<and> items (localStorage s) session_key = Some t
          \<and> text_truthy t
        \<longrightarrow> getStoredSession s = (case t of Json_text v \<Rightarrow> v | Plain x \<Rightarrow> JNull))
   \<and> (durable_gives_nothing s \<and> \<not> blocked (sessionStorage s) \<longrightarrow>
        getStoredSession s =
          (case items (sessionStorage s) session_key of Some (Json_text v) \<Rightarrow> v | _ \<Rightarrow> JNull))
   \<and> (\<not> blocked (localStorage s) \<and> \<not> blocked (sessionStorage s) \<longrightarrow>
        clearUserSession s =
          Inr (s\<lparr>localStorage := (localStorage s)\<lparr>items := (items (localStorage s))(session_key := None)\<rparr>,
                 sessionStorage := (sessionStorage s)\<lparr>items := (items (sessionStorage s))(session_key := None)\<rparr>\<rparr>))
   \<and> (\<forall>s'. storeUserSession env user ac s = Inr s' \<longrightarrow>
        (\<forall>(k, x) \<in> set (sessionData env user ac). get_prop (getStoredSession s') k = x))
   \<and> (\<forall>s'. clearUserSession s = Inr s' \<longrightarrow>
        items (localStorage s') session_key = None \<and> items (sessionStorage s') session_key = None
        \<and> getStoredSession s' = JNull)"
  using storeUserSession_durable_only [of s env user ac] getStoredSession_durable [of s]
    getStoredSession_fallback [of s] clearUserSession_both [of s]
    round_trip [of env user ac s] cleared_reads_null [of s]
  by blast

theorem session_store_tiers_witness:
  "storeUserSession admin_env alice (checkAdminRole admin_env ''u1'') (fresh ''/admin-login.html'')
     = Inr signed_in
   \<and> sessionStorage signed_in = sessionStorage (fresh ''/admin-login.html'')
   \<and> get_prop (getStoredSession signed_in) ''userId'' = Some (JStr ''u1'')
   \<and> get_prop (getStoredSession signed_in) ''displayName'' = Some JNull
   \<and> get_prop (getStoredSession signed_in) ''isAdmin'' = Some (JBool True)
   \<and> get_prop (getStoredSession signed_in) ''role'' = Some (JStr ''manager'')
   \<and> get_prop (getStoredSession signed_in) ''permissions'' = Some (JArr [JStr ''stations''])
   \<and> get_prop (getStoredSession signed_in) ''loginTime'' = Some (JNum 1700000000000)
   \<and> clearUserSession signed_in = Inr (fresh ''/admin-login.html'')
   \<and> getStoredSession (fresh ''/admin-login.html'') = JNull
   \<and> durable_gives_nothing tab_only
   \<and> getStoredSession tab_only = user_session"
proof -
  let ?ac = "checkAdminRole admin_env ''u1''"
  let ?s = "fresh ''/admin-login.html''"
  note tiers = session_store_tiers [of ?s admin_env alice ?ac]
  have ok: "\<not> blocked (localStorage ?s)" "\<not> full (localStorage ?s)"
    "\<not> blocked (localStorage signed_in)" "\<not> blocked (sessionStorage signed_in)"
    by (simp_all add: fresh_def empty_tier_def signed_in_def holding_def)
  have shape: "?s\<lparr>localStorage := (localStorage ?s)\<lparr>items :=
       (items (localStorage ?s))(session_key \<mapsto> JSON_stringify (sessionData admin_env alice ?ac))\<rparr>\<rparr>
     = signed_in"
    by (simp add: signed_in_def fresh_def holding_def empty_tier_def)
  from tiers ok shape have w: "storeUserSession admin_env alice ?ac ?s = Inr signed_in"
    by simp
  have readback: "\<forall>(k, x) \<in> set (sessionData admin_env alice ?ac).
      get_prop (getStoredSession signed_in) k = x"
    by (rule tiers [THEN conjunct2, THEN conjunct2, THEN conjunct2, THEN conjunct2,
          THEN conjunct1, THEN spec, THEN mp, OF w])
  have ac: "?ac = \<lparr>is_admin = True, role = Some (JStr ''manager''),
      permissions = Some (JArr [JStr ''stations'']), error = None\<rparr>"
    by (simp add: checkAdminRole_def admin_env_def inactive_admin_doc_def)
  have fields: "get_prop (getStoredSession signed_in) ''userId'' = Some (JStr ''u1'')
   \<and> get_prop (getStoredSession signed_in) ''displayName'' = Some JNull
   \<and> get_prop (getStoredSession signed_in) ''isAdmin'' = Some (JBool True)
   \<and> get_prop (getStoredSession signed_in) ''role'' = Some (JStr ''manager'')
   \<and> get_prop (getStoredSession signed_in) ''permissions'' = Some (JArr [JStr ''stations''])
   \<and> get_prop (getStoredSession signed_in) ''loginTime'' = Some (JNum 1700000000000)"
    using readback unfolding ac
    by (simp add: sessionData_def alice_def admin_env_def)
  have shape': "signed_in\<lparr>localStorage := (localStorage signed_in)\<lparr>items :=
         (items (localStorage signed_in))(session_key := None)\<rparr>,
       sessionStorage := (sessionStorage signed_in)\<lparr>items :=
         (items (sessionStorage signed_in))(session_key := None)\<rparr>\<rparr> = ?s"
    by (simp add: signed_in_def fresh_def holding_def empty_tier_def)
  from session_store_tiers [of signed_in admin_env alice ?ac] ok shape'
  have c: "clearUserSession signed_in = Inr ?s"
    by simp
  have n: "getStoredSession ?s = JNull"
    using session_store_tiers [of signed_in admin_env alice ?ac, THEN conjunct2, THEN conjunct2,
          THEN conjunct2, THEN conjunct2, THEN conjunct2, THEN spec, THEN mp, OF c]
    by simp
  have t: "sessionStorage signed_in = sessionStorage ?s"
    by (simp add: signed_in_def)
  have fb: "durable_gives_nothing tab_only" "\<not> blocked (sessionStorage tab_only)"
    "items (sessionStorage tab_only) session_key = Some (Json_text user_session)"
    by (simp_all add: durable_gives_nothing_def tab_only_def fresh_def empty_tier_def
        holding_def text_opt_truthy_def)
  have r: "getStoredSession tab_only = user_session"
    using session_store_tiers [of tab_only admin_env alice ?ac, THEN conjunct2, THEN conjunct2,
          THEN conjunct1] fb
    by simp
  from w t fields c n fb r show ?thesis by simp
qed

section \<open>The role lookup\<close>

text \<open>
  C10. \<open>checkAdminRole\<close> reports \<open>isAdmin\<close> true exactly when the lookup returns a document
  for the user in \<open>adminUsers\<close>, whatever the document holds, and passes on its \<open>role\<close> and
  \<open>permissions\<close>; a missing document or a failed lookup gives \<open>isAdmin\<close> false.  The
  field \<open>isActive\<close> is never read.
\<close>

theorem checkAdminRole_document_exists:
  "(is_admin (checkAdminRole env userId)
      \<longleftrightarrow> firebase env \<and> (\<exists>d. getDoc env ''adminUsers'' userId = Inr (Some d)))
   \<and> (\<forall>d. firebase env \<and> getDoc env ''adminUsers'' userId = Inr (Some d) \<longrightarrow>
         checkAdminRole env userId =
           \<lparr>is_admin = True, role = d ''role'', permissions = d ''permissions'', error = None\<rparr>)
   \<and> (firebase env \<and> getDoc env ''adminUsers'' userId = Inr None \<longrightarrow>
         checkAdminRole env userId =
           \<lparr>is_admin = False, role = None, permissions = None, error = None\<rparr>)
   \<and> (\<forall>e. \<not> firebase env \<or> getDoc env ''adminUsers'' userId = Inl e \<longrightarrow>
         \<not> is_admin (checkAdminRole env userId) \<and> error (checkAdminRole env userId) \<noteq> None)"
proof (cases "firebase env")
  case False
  then show ?thesis
    by (simp add: checkAdminRole_def)
next
  case True
  show ?thesis
  proof (cases "getDoc env ''adminUsers'' userId")
    case (Inl e)
    with True show ?thesis
      by (simp add: checkAdminRole_def)
  next
    case (Inr found)
    with True show ?thesis
      by (cases found) (simp_all add: checkAdminRole_def)
  qed
qed

theorem checkAdminRole_document_exists_witness:
  "firebase admin_env
   \<and> getDoc admin_env ''adminUsers'' ''u1'' = Inr (Some inactive_admin_doc)
   \<and> inactive_admin_doc ''isActive'' = Some (JBool False)
   \<and> checkAdminRole admin_env ''u1'' =
        \<lparr>is_admin = True, role = Some (JStr ''manager''),
         permissions = Some (JArr [JStr ''stations'']), error = None\<rparr>
   \<and> getDoc admin_env ''adminUsers'' ''u2'' = Inr None
   \<and> checkAdminRole admin_env ''u2'' =
        \<lparr>is_admin = False, role = None, permissions = None, error = None\<rparr>
   \<and> getDoc offline_env ''adminUsers'' ''u1'' = Inl (FirestoreError ''unavailable'')
   \<and> \<not> is_admin (checkAdminRole offline_env ''u1'')"
proof -
  have f: "firebase admin_env"
    and g: "getDoc admin_env ''adminUsers'' ''u1'' = Inr (Some inactive_admin_doc)"
    and g': "getDoc admin_env ''adminUsers'' ''u2'' = Inr None"
    by (simp_all add: admin_env_def)
  have d: "inactive_admin_doc ''isActive'' = Some (JBool False)"
    "inactive_admin_doc ''role'' = Some (JStr ''manager'')"
    "inactive_admin_doc ''permissions'' = Some (JArr [JStr ''stations''])"
    by (simp_all add: inactive_admin_doc_def)
  have e: "getDoc offline_env ''adminUsers'' ''u1'' = Inl (FirestoreError ''unavailable'')"
    by (simp add: offline_env_def)
  from checkAdminRole_document_exists [of admin_env "''u1''"]
    checkAdminRole_document_exists [of admin_env "''u2''"]
    checkAdminRole_document_exists [of offline_env "''u1''"] f g g' d e
  show ?thesis
    by simp
qed

section \<open>Password strength\<close>

lemma requirements_meet:
  "requirements (validatePasswordStrength p) =
     \<lparr>minLength = meets p Length, hasUppercase = meets p Upper, hasLowercase = meets p Lower,
      hasNumbers = meets p Number, hasSpecialChar = meets p Special\<rparr>"
  by (simp add: validatePasswordStrength_def Let_def list_ex_iff is_upper_def is_lower_def
      is_digit_def is_special_def)

lemma strength_eq:
  "strength (validatePasswordStrength p) =
     length (filter (\<lambda>b. b) (object_values (requirements (validatePasswordStrength p))))"
  by (simp add: validatePasswordStrength_def Let_def)

lemma values_meet:
  "object_values (requirements (validatePasswordStrength p)) = map (meets p) rule_order"
  unfolding requirements_meet
  by (simp add: object_values_def rule_order_def del: meets.simps)

lemma strength_counts_rules:
  "strength (validatePasswordStrength p) = rules_met p"
  unfolding strength_eq values_meet rules_met_def
  by (simp add: filter_map o_def del: meets.simps)

lemma rules_met_le: "rules_met p \<le> 5"
proof -
  have "length (filter (meets p) rule_order) \<le> length rule_order"
    by (rule length_filter_le)
  then show ?thesis
    by (simp add: rules_met_def rule_order_def)
qed

lemma level_of_strength:
  "level (getPasswordFeedback n r) =
     (if n < 2 then ''weak'' else if n < 4 then ''medium''
      else if n < 5 then ''strong'' else ''very-strong'')"
  by (simp add: getPasswordFeedback_def Let_def)

lemma feedback_object_eq:
  "feedback_object (validatePasswordStrength p) =
     getPasswordFeedback (strength (validatePasswordStrength p))
       (requirements (validatePasswordStrength p))"
  by (simp add: validatePasswordStrength_def Let_def)

lemma isStrong_eq: "isStrong (validatePasswordStrength p) \<longleftrightarrow> 4 \<le> rules_met p"
  using strength_counts_rules [of p]
  by (simp add: validatePasswordStrength_def Let_def)

text \<open>
  C7. The strength is the number of the five requirements the password meets, at most
  five; the level is weak below 2, medium for 2 and 3, strong for 4, very-strong for 5;
  a password meeting exactly four is strong (\<open>isStrong\<close> and level "strong").
\<close>

theorem password_strength_levels:
  "strength (validatePasswordStrength p) = rules_met p
   \<and> rules_met p \<le> 5
   \<and> requirements (validatePasswordStrength p) =
       \<lparr>minLength = meets p Length, hasUppercase = meets p Upper, hasLowercase = meets p Lower,
        hasNumbers = meets p Number, hasSpecialChar = meets p Special\<rparr>
   \<and> level (feedback_object (validatePasswordStrength p)) =
       (if rules_met p < 2 then ''weak''
        else if rules_met p < 4 then ''medium''
        else if rules_met p = 4 then ''strong''
        else ''very-strong'')
   \<and> (rules_met p = 5 \<longrightarrow> level (feedback_object (validatePasswordStrength p)) = ''very-strong'')
   \<and> (rules_met p = 4 \<longrightarrow>
        isStrong (validatePasswordStrength p)
        \<and> level (feedback_object (validatePasswordStrength p)) = ''strong'')"
proof -
  have lv: "level (feedback_object (validatePasswordStrength p)) =
       (if rules_met p < 2 then ''weak''
        else if rules_met p < 4 then ''medium''
        else if rules_met p = 4 then ''strong''
        else ''very-strong'')"
    using rules_met_le [of p]
    by (simp add: feedback_object_eq level_of_strength strength_counts_rules)
  then have five: "rules_met p = 5 \<longrightarrow> level (feedback_object (validatePasswordStrength p)) = ''very-strong''"
    by simp
  from lv have four: "rules_met p = 4 \<longrightarrow>
        isStrong (validatePasswordStrength p)
        \<and> level (feedback_object (validatePasswordStrength p)) = ''strong''"
    by (simp add: isStrong_eq)
  from strength_counts_rules rules_met_le requirements_meet lv five four
  show ?thesis by blast
qed

lemma rules_met_examples:
  "rules_met ''Abcdefg1'' = 4" "rules_met ''MyStr0ng!Pass'' = 5" "rules_met ''123'' = 1"
  by (simp_all add: rules_met_def rule_order_def special_chars_def)

theorem password_strength_levels_witness:
  "rules_met ''Abcdefg1'' = 4
   \<and> strength (validatePasswordStrength ''Abcdefg1'') = 4
   \<and> isStrong (validatePasswordStrength ''Abcdefg1'')
   \<and> level (feedback_object (validatePasswordStrength ''Abcdefg1'')) = ''strong''
   \<and> rules_met ''MyStr0ng!Pass'' = 5
   \<and> level (feedback_object (validatePasswordStrength ''MyStr0ng!Pass'')) = ''very-strong''
   \<and> strength (validatePasswordStrength ''123'') = 1
   \<and> level (feedback_object (validatePasswordStrength ''123'')) = ''weak''"
  using password_strength_levels [of "''Abcdefg1''"] password_strength_levels [of "''MyStr0ng!Pass''"]
    password_strength_levels [of "''123''"] rules_met_examples
  by simp

section \<open>Password feedback\<close>

lemma feedback_of_requirements:
  "feedback (getPasswordFeedback n r) =
     push_unless (hasSpecialChar r) ''One special character''
       (push_unless (hasNumbers r) ''One number''
         (push_unless (hasLowercase r) ''One lowercase letter''
           (push_unless (hasUppercase r) ''One uppercase letter''
             (push_unless (minLength r) ''At least 8 characters'' []))))"
  by (simp add: getPasswordFeedback_def Let_def)

lemma feedback_unmet:
  "feedback (feedback_object (validatePasswordStrength p)) =
     map hint (filter (\<lambda>r. \<not> meets p r) rule_order)"
  unfolding feedback_object_eq feedback_of_requirements requirements_meet
  by (simp add: push_unless_def rule_order_def del: meets.simps)

lemma hint_inj: "hint a = hint b \<longleftrightarrow> a = b"
  by (cases a; cases b) simp_all

lemma unmet_count:
  "length (filter (\<lambda>r. \<not> meets p r) rule_order) = 5 - rules_met p"
proof -
  have "length (filter (meets p) rule_order) + length (filter (\<lambda>r. \<not> meets p r) rule_order)
          = length rule_order"
    by (rule sum_length_filter_compl)
  then show ?thesis
    by (simp add: rules_met_def rule_order_def)
qed

text \<open>
  C8. The feedback list holds the message of each unmet requirement, once, and of no
  met one, in the order length, uppercase, lowercase, number, special; its length is
  five minus the strength.
\<close>

theorem feedback_lists_unmet:
  "feedback (feedback_object (validatePasswordStrength p)) =
     map hint (filter (\<lambda>r. \<not> meets p r) rule_order)
   \<and> (\<forall>r. hint r \<in> set (feedback (feedback_object (validatePasswordStrength p)))
            \<longleftrightarrow> \<not> meets p r)
   \<and> distinct (feedback (feedback_object (validatePasswordStrength p)))
   \<and> length (feedback (feedback_object (validatePasswordStrength p)))
       = 5 - strength (validatePasswordStrength p)"
proof -
  have all: "set rule_order = UNIV"
  proof -
    have "r \<in> set rule_order" for r
      by (cases r) (simp_all add: rule_order_def)
    then show ?thesis by blast
  qed
  have m: "hint r \<in> set (map hint (filter (\<lambda>r. \<not> meets p r) rule_order)) \<longleftrightarrow> \<not> meets p r" for r
    by (auto simp: hint_inj all)
  have d: "distinct (map hint (filter (\<lambda>r. \<not> meets p r) rule_order))"
    by (rule distinct_map_filter) (simp add: rule_order_def)
  show ?thesis
    using m d by (simp add: feedback_unmet unmet_count strength_counts_rules)
qed

theorem feedback_lists_unmet_witness:
  "strength (validatePasswordStrength ''123'') = 1
   \<and> feedback (feedback_object (validatePasswordStrength ''123''))
       = [''At least 8 characters'', ''One uppercase letter'', ''One lowercase letter'',
          ''One special character'']"
proof -
  have "rules_met ''123'' = 1"
    by (rule rules_met_examples)
  then have s: "strength (validatePasswordStrength ''123'') = 1"
    by (simp add: strength_counts_rules)
  have "map hint (filter (\<lambda>r. \<not> meets ''123'' r) rule_order)
      = [''At least 8 characters'', ''One uppercase letter'', ''One lowercase letter'',
          ''One special character'']"
    by (simp add: rule_order_def special_chars_def)
  with feedback_lists_unmet [of "''123''"] s show ?thesis
    by simp
qed

section \<open>The form validator\<close>

text \<open>The matcher decides membership in the language of the pattern.\<close>

lemma nullable_lang: "nullable r \<longleftrightarrow> [] \<in> lang r"
  by (induction r) (auto simp: joined_def intro: repeats.none)

lemma joined_Cons:
  "c # w \<in> joined A B \<longleftrightarrow>
     ([] \<in> A \<and> c # w \<in> B) \<or> (\<exists>u v. c # u \<in> A \<and> v \<in> B \<and> w = u @ v)"
  by (auto simp: joined_def Cons_eq_append_conv)

lemma repeats_Cons_split:
  assumes "x \<in> repeats A" and "x = c # w"
  shows "\<exists>u v. c # u \<in> A \<and> v \<in> repeats A \<and> w = u @ v"
  using assms
proof (induction arbitrary: w rule: repeats.induct)
  case none
  then show ?case by simp
next
  case (more a y)
  show ?case
  proof (cases a)
    case Nil
    with more show ?thesis by simp
  next
    case (Cons d u)
    with more.prems have "d = c" and "w = u @ y" by simp_all
    with Cons more.hyps show ?thesis by blast
  qed
qed

lemma repeats_Cons:
  "c # w \<in> repeats A \<longleftrightarrow> (\<exists>u v. c # u \<in> A \<and> v \<in> repeats A \<and> w = u @ v)"
proof
  assume "c # w \<in> repeats A"
  then show "\<exists>u v. c # u \<in> A \<and> v \<in> repeats A \<and> w = u @ v"
    by (rule repeats_Cons_split) simp
next
  assume "\<exists>u v. c # u \<in> A \<and> v \<in> repeats A \<and> w = u @ v"
  then obtain u v where "c # u \<in> A" "v \<in> repeats A" "w = u @ v" by blast
  then show "c # w \<in> repeats A"
    using repeats.more [of "c # u" A v] by simp
qed

lemma deriv_lang: "w \<in> lang (deriv c r) \<longleftrightarrow> c # w \<in> lang r"
proof (induction r arbitrary: w)
  case (RSeq r q)
  then show ?case
    by (auto simp: joined_Cons nullable_lang) (auto simp: joined_def)
next
  case (RStar r)
  then show ?case
    by (auto simp: repeats_Cons) (auto simp: joined_def)
qed auto

lemma matches_lang: "matches r w \<longleftrightarrow> w \<in> lang r"
  by (induction w arbitrary: r) (simp_all add: nullable_lang deriv_lang)

lemma email_accepts: "matches email_pattern ''a@b.co''"
  by code_simp

lemma email_rejects: "\<not> matches email_pattern ''not-an-email''"
  by code_simp

lemma phone_accepts: "matches phone_pattern ''+1234567890''"
  by code_simp

lemma phone_rejects: "\<not> matches phone_pattern ''123''"
  by code_simp

lemma validate_pattern_rule:
  assumes "rules kind = Some \<lparr>required = False, pattern = Some p, min_length = None, rule_message = m\<rparr>"
  shows "isValid (validate l (Some v) kind) \<longleftrightarrow> v = [] \<or> matches p v"
  using assms by (simp add: validate_def)

lemma rules_email:
  "rules ''email'' = Some \<lparr>required = False, pattern = Some email_pattern, min_length = None,
              rule_message = ''Please enter a valid email address''\<rparr>"
  by (simp add: rules_def)

lemma rules_phone:
  "rules ''phone'' = Some \<lparr>required = False, pattern = Some phone_pattern, min_length = None,
              rule_message = ''Please enter a valid phone number''\<rparr>"
  by (simp add: rules_def)

text \<open>
  C5, as stated, fails: the empty string is not rejected as an email address.
\<close>

theorem validate_empty_email_counterexample:
  "validate ''Email'' (Some '''') ''email'' = \<lparr>isValid = True, error_text = None\<rparr>"
  by (simp add: validate_def rules_email)

text \<open>
  C5, amended. As an email address \<open>a@b.co\<close> is valid, \<open>not-an-email\<close> is invalid and the
  empty string is valid (the pattern is not applied to it); as a phone number
  \<open>+1234567890\<close> is valid and \<open>123\<close> is invalid.
\<close>

theorem validate_examples:
  "isValid (validate l (Some ''a@b.co'') ''email'')
   \<and> \<not> isValid (validate l (Some ''not-an-email'') ''email'')
   \<and> isValid (validate l (Some '''') ''email'')
   \<and> isValid (validate l (Some ''+1234567890'') ''phone'')
   \<and> \<not> isValid (validate l (Some ''123'') ''phone'')"
  by (simp add: validate_pattern_rule [OF rules_email] validate_pattern_rule [OF rules_phone]
      email_accepts email_rejects phone_accepts phone_rejects del: matches.simps)

theorem validate_examples_witness:
  "isValid (validate ''Email'' (Some ''a@b.co'') ''email'')
   \<and> \<not> isValid (validate ''Email'' (Some ''not-an-email'') ''email'')
   \<and> isValid (validate ''Email'' (Some '''') ''email'')
   \<and> isValid (validate ''Phone'' (Some ''+1234567890'') ''phone'')
   \<and> \<not> isValid (validate ''Phone'' (Some ''123'') ''phone'')"
  using validate_examples [of "''Email''"] validate_examples [of "''Phone''"]
  by simp

lemma no_rule_required:
  "rules kind = Some rule \<Longrightarrow> \<not> required rule"
  by (auto simp: rules_def split: if_splits)

lemma required_text_differs:
  "rules kind = Some rule \<Longrightarrow> rule_message rule \<noteq> l @ '' is required''"
proof
  assume r: "rules kind = Some rule" and e: "rule_message rule = l @ '' is required''"
  have "last (l @ '' is required'') = CHR ''d''"
    by simp
  with e have "last (rule_message rule) = CHR ''d''"
    by simp
  with r show False
    by (auto simp: rules_def split: if_splits)
qed

text \<open>
  C6. For each of the kinds email, phone and password, the empty string (and a missing
  value) validates successfully under every label; no rule set has \<open>required\<close> set, and
  the "is required" result is never returned.
\<close>

theorem validate_empty_always_valid:
  "(kind \<in> {''email'', ''phone'', ''password''} \<longrightarrow>
      validate l (Some '''') kind = \<lparr>isValid = True, error_text = None\<rparr>
      \<and> validate l None kind = \<lparr>isValid = True, error_text = None\<rparr>
      \<and> (\<exists>rule. rules kind = Some rule \<and> \<not> required rule))
   \<and> (\<forall>k rule. rules k = Some rule \<longrightarrow> \<not> required rule)
   \<and> (\<forall>k v. error_text (validate l v k) \<noteq> Some (l @ '' is required''))"
proof -
  have empty: "validate l (Some '''') k = \<lparr>isValid = True, error_text = None\<rparr>"
    and missing: "validate l None k = \<lparr>isValid = True, error_text = None\<rparr>" for k
    using no_rule_required [of k]
    by (auto simp: validate_def split: option.splits)
  have known: "\<exists>rule. rules kind = Some rule \<and> \<not> required rule"
    if "kind \<in> {''email'', ''phone'', ''password''}"
    using that by (auto simp: rules_def)
  have unreachable: "error_text (validate l v k) \<noteq> Some (l @ '' is required'')" for k v
    using no_rule_required [of k] required_text_differs [of k _ l]
    by (auto simp: validate_def split: option.splits)
  from empty missing known unreachable no_rule_required show ?thesis
    by blast
qed

theorem validate_empty_always_valid_witness:
  "''password'' \<in> {''email'', ''phone'', ''password''}
   \<and> validate ''Password'' (Some '''') ''password'' = \<lparr>isValid = True, error_text = None\<rparr>
   \<and> validate ''Password'' None ''password'' = \<lparr>isValid = True, error_text = None\<rparr>"
  using validate_empty_always_valid [of "''password''" "''Password''"]
  by simp

end
